theory Spec2Isabelle
  imports Complex_Main "HOL-Library.AList"
begin

section \<open>Python values shared by both modules\<close>

text \<open>
  Python floats and numpy's float64 entries are idealised as real numbers, complex128
  entries as complex numbers; a one-dimensional numpy array is a list. Exceptions are
  values of the type \<open>error\<close>, returned on the left of a sum.
\<close>

datatype error = TypeError | AttributeError | IndexError | KeyError | ValueError
  | ZeroDivisionError

definition bnd :: "error + 'a \<Rightarrow> ('a \<Rightarrow> error + 'b) \<Rightarrow> error + 'b" where
  "bnd r f = (case r of Inl e \<Rightarrow> Inl e | Inr v \<Rightarrow> f v)"

text \<open>
  numpy's elementwise binary operation on two one-dimensional arrays: equal shapes are
  combined pointwise, an array of one element is stretched to the other shape, and any
  other pair of shapes raises ValueError ("operands could not be broadcast together").
\<close>

definition np_broadcast :: "('a \<Rightarrow> 'b \<Rightarrow> 'c) \<Rightarrow> 'a list \<Rightarrow> 'b list \<Rightarrow> error + 'c list" where
  "np_broadcast f xs ys =
     (if length xs = length ys then Inr (map2 f xs ys)
      else if length xs = 1 then Inr (map (f (hd xs)) ys)
      else if length ys = 1 then Inr (map (\<lambda>a. f a (hd ys)) xs)
      else Inl ValueError)"

text \<open>\<open>np.dot\<close> of two one-dimensional arrays: the shapes must agree.\<close>

definition np_dot :: "real list \<Rightarrow> real list \<Rightarrow> error + real" where
  "np_dot xs ys =
     (if length xs = length ys then Inr (sum_list (map2 (*) xs ys)) else Inl ValueError)"

section \<open>tupak/gw/utils.py\<close>

subsection \<open>Names imported from tupak.core.utils\<close>

text \<open>
  \<open>gps_time_to_gmst\<close>, \<open>ra_dec_to_theta_phi\<close> and \<open>speed_of_light\<close> are imported from
  tupak.core.utils, whose source is not part of the files at hand. The functions below
  take them as a parameter, so every theorem holds for whatever they compute.
\<close>

record core_utils =
  gps_time_to_gmst :: "real \<Rightarrow> real"
  ra_dec_to_theta_phi :: "real \<Rightarrow> real \<Rightarrow> real \<Rightarrow> real \<times> real"
  speed_of_light :: real

text \<open>An instance used only where a closed example needs one.\<close>

definition sample_core_utils :: core_utils where
  "sample_core_utils =
     \<lparr>gps_time_to_gmst = (\<lambda>t. t),
      ra_dec_to_theta_phi = (\<lambda>ra dec gmst. (pi / 2 - dec, ra - gmst)),
      speed_of_light = 299792458\<rparr>"

subsection \<open>time_delay_geocentric\<close>

definition time_delay_geocentric ::
  "core_utils \<Rightarrow> real list \<Rightarrow> real list \<Rightarrow> real \<Rightarrow> real \<Rightarrow> real \<Rightarrow> error + real" where
  "time_delay_geocentric U detector1 detector2 ra dec time =
     (let gmst = gps_time_to_gmst U time;
          (theta, phi) = ra_dec_to_theta_phi U ra dec gmst;
          omega = [sin theta * cos phi, sin theta * sin phi, cos theta]
      in bnd (np_broadcast (-) detector2 detector1) (\<lambda>delta_d.
         bnd (np_dot omega delta_d) (\<lambda>d.
         Inr (d / speed_of_light U))))"

subsection \<open>get_polarization_tensor\<close>

text \<open>
  A 3x3 array is a list of rows. \<open>np.einsum('i,j->ij', a, b)\<close> is the outer product.
  The vectors \<open>u\<close>, \<open>v\<close>, \<open>m\<close>, \<open>n\<close> are built with three entries each, so the
  elementwise operations on them never meet unequal shapes and the indices of
  \<open>np.cross\<close> are in range.
\<close>

type_synonym mat = "real list list"

definition einsum_outer :: "real list \<Rightarrow> real list \<Rightarrow> mat" where
  "einsum_outer a b = map (\<lambda>x. map (\<lambda>y. x * y) b) a"

definition mat_add :: "mat \<Rightarrow> mat \<Rightarrow> mat" where
  "mat_add A B = map2 (map2 (+)) A B"

definition mat_sub :: "mat \<Rightarrow> mat \<Rightarrow> mat" where
  "mat_sub A B = map2 (map2 (-)) A B"

definition mat_scale :: "real \<Rightarrow> mat \<Rightarrow> mat" where
  "mat_scale c A = map (map (\<lambda>x. c * x)) A"

definition np_cross :: "real list \<Rightarrow> real list \<Rightarrow> real list" where
  "np_cross a b =
     [a ! 1 * b ! 2 - a ! 2 * b ! 1,
      a ! 2 * b ! 0 - a ! 0 * b ! 2,
      a ! 0 * b ! 1 - a ! 1 * b ! 0]"

definition vec_scale :: "real list \<Rightarrow> real \<Rightarrow> real list" where
  "vec_scale a c = map (\<lambda>x. x * c) a"

definition vec_neg :: "real list \<Rightarrow> real list" where
  "vec_neg a = map uminus a"

definition vec_add :: "real list \<Rightarrow> real list \<Rightarrow> real list" where
  "vec_add a b = map2 (+) a b"

definition vec_sub :: "real list \<Rightarrow> real list \<Rightarrow> real list" where
  "vec_sub a b = map2 (-) a b"

text \<open>\<open>str.lower\<close> on the ASCII letters.\<close>

definition lower_char :: "char \<Rightarrow> char" where
  "lower_char c =
     (case map_of (zip ''ABCDEFGHIJKLMNOPQRSTUVWXYZ'' ''abcdefghijklmnopqrstuvwxyz'') c of
        Some d \<Rightarrow> d
      | None \<Rightarrow> c)"

definition lower :: "string \<Rightarrow> string" where
  "lower s = map lower_char s"

text \<open>
  The wave-frame vectors \<open>m\<close> and \<open>n\<close> of lines 107 to 112.
\<close>

definition wave_frame :: "core_utils \<Rightarrow> real \<Rightarrow> real \<Rightarrow> real \<Rightarrow> real \<Rightarrow> real list \<times> real list" where
  "wave_frame U ra dec time psi =
     (let greenwich_mean_sidereal_time = gps_time_to_gmst U time;
          (theta, phi) = ra_dec_to_theta_phi U ra dec greenwich_mean_sidereal_time;
          u = [cos phi * cos theta, cos theta * sin phi, - sin theta];
          v = [- sin phi, cos phi, 0];
          m = vec_sub (vec_scale (vec_neg u) (sin psi)) (vec_scale v (cos psi));
          n = vec_add (vec_scale (vec_neg u) (cos psi)) (vec_scale v (sin psi))
      in (m, n))"

text \<open>
  The result is the pair of the warnings logged and the value returned, \<open>None\<close> being
  Python's None.
\<close>

definition get_polarization_tensor ::
  "core_utils \<Rightarrow> real \<Rightarrow> real \<Rightarrow> real \<Rightarrow> real \<Rightarrow> string \<Rightarrow> string list \<times> mat option" where
  "get_polarization_tensor U ra dec time psi mode =
     (let (m, n) = wave_frame U ra dec time psi in
      if lower mode = ''plus'' then
        ([], Some (mat_sub (einsum_outer m m) (einsum_outer n n)))
      else if lower mode = ''cross'' then
        ([], Some (mat_add (einsum_outer m n) (einsum_outer n m)))
      else if lower mode = ''breathing'' then
        ([], Some (mat_add (einsum_outer m m) (einsum_outer n n)))
      else
        let omega = np_cross m n in
        if lower mode = ''longitudinal'' then
          ([], Some (mat_scale (sqrt 2) (einsum_outer omega omega)))
        else if lower mode = ''x'' then
          ([], Some (mat_add (einsum_outer m omega) (einsum_outer omega m)))
        else if lower mode = ''y'' then
          ([], Some (mat_add (einsum_outer n omega) (einsum_outer omega n)))
        else
          ([mode @ '' not a polarization mode!''], None))"

definition trace :: "mat \<Rightarrow> real" where
  "trace A = sum_list (map (\<lambda>i. A ! i ! i) [0..<length A])"

subsection \<open>noise_weighted_inner_product and the two signal-to-noise ratios\<close>

record interferometer =
  frequency_domain_strain :: "complex list"
  power_spectral_density_array :: "real list"

text \<open>
  \<open>time_duration\<close> is a Python float: \<open>4 / time_duration\<close> raises ZeroDivisionError
  at zero. The division by the spectral density is numpy's, which raises nothing.
\<close>

definition noise_weighted_inner_product ::
  "complex list \<Rightarrow> complex list \<Rightarrow> real list \<Rightarrow> real \<Rightarrow> error + complex" where
  "noise_weighted_inner_product aa bb power_spectral_density time_duration =
     bnd (np_broadcast (*) (map cnj aa) bb) (\<lambda>prod.
     bnd (np_broadcast (\<lambda>c p. c / complex_of_real p) prod power_spectral_density) (\<lambda>integrand.
     if time_duration = 0 then Inl ZeroDivisionError
     else Inr (complex_of_real (4 / time_duration) * sum_list integrand)))"

definition matched_filter_snr_squared ::
  "complex list \<Rightarrow> interferometer \<Rightarrow> real \<Rightarrow> error + complex" where
  "matched_filter_snr_squared signal interferometer time_duration =
     noise_weighted_inner_product signal (frequency_domain_strain interferometer)
       (power_spectral_density_array interferometer) time_duration"

definition optimal_snr_squared ::
  "complex list \<Rightarrow> interferometer \<Rightarrow> real \<Rightarrow> error + complex" where
  "optimal_snr_squared signal interferometer time_duration =
     noise_weighted_inner_product signal signal
       (power_spectral_density_array interferometer) time_duration"

section \<open>tupak/core/likelihood.py\<close>

subsection \<open>Python values and dictionaries\<close>

text \<open>
  The module runs under Python 2 (it imports \<open>division\<close> and \<open>print_function\<close> from
  \<open>__future__\<close> and indexes \<open>dict.values()\<close>) and is written in the Python 3 style.
  Where the two interpreters differ on a construct the module uses, the model takes the
  interpreter as a parameter.
\<close>

datatype pyver = Py2 | Py3

text \<open>A value that is None, a float, or a one-dimensional array of floats.\<close>

datatype pyval = PNone | PNum real | PArr "real list"

text \<open>
  A dictionary with string keys is an association list with distinct keys, in insertion
  order; \<open>d[k] = v\<close> is \<open>AList.update k v d\<close> and \<open>d.get(k)\<close> is \<open>map_of d k\<close>.
\<close>

type_synonym pydict = "(string \<times> pyval) list"

definition fromkeys :: "string list \<Rightarrow> pydict" where
  "fromkeys ks = fold (\<lambda>k d. AList.update k PNone d) ks []"

definition dict_update :: "pydict \<Rightarrow> pydict \<Rightarrow> pydict" where
  "dict_update d other = fold (\<lambda>(k, v) acc. AList.update k v acc) other d"

text \<open>The comprehension \<open>{k: d[k] for k in keys}\<close>; a missing key raises KeyError.\<close>

fun dict_restrict :: "pydict \<Rightarrow> string list \<Rightarrow> error + pydict" where
  "dict_restrict d [] = Inr []"
| "dict_restrict d (k # ks) =
     (case map_of d k of
        None \<Rightarrow> Inl KeyError
      | Some v \<Rightarrow> bnd (dict_restrict d ks) (\<lambda>r. Inr ((k, v) # r)))"

text \<open>
  numpy arithmetic on these values: a float combines with a float or with every entry
  of an array, two arrays are broadcast, and None raises TypeError.
\<close>

fun np_op :: "(real \<Rightarrow> real \<Rightarrow> real) \<Rightarrow> pyval \<Rightarrow> pyval \<Rightarrow> error + pyval" where
  "np_op f (PNum a) (PNum b) = Inr (PNum (f a b))"
| "np_op f (PNum a) (PArr bs) = Inr (PArr (map (f a) bs))"
| "np_op f (PArr as) (PNum b) = Inr (PArr (map (\<lambda>a. f a b) as))"
| "np_op f (PArr as) (PArr bs) = bnd (np_broadcast f as bs) (\<lambda>r. Inr (PArr r))"
| "np_op f PNone _ = Inl TypeError"
| "np_op f _ PNone = Inl TypeError"

fun np_map :: "(real \<Rightarrow> real) \<Rightarrow> pyval \<Rightarrow> error + pyval" where
  "np_map f (PNum a) = Inr (PNum (f a))"
| "np_map f (PArr as) = Inr (PArr (map f as))"
| "np_map f PNone = Inl TypeError"

fun np_sum :: "pyval \<Rightarrow> error + pyval" where
  "np_sum (PNum a) = Inr (PNum a)"
| "np_sum (PArr as) = Inr (PNum (sum_list as))"
| "np_sum PNone = Inl TypeError"

subsection \<open>GaussianLikelihood\<close>

text \<open>
  A model function: the argument names that \<open>inspect.getargspec\<close> reports, and the
  call \<open>function(x, **kwargs)\<close>.
\<close>

record pyfunc =
  args :: "string list"
  call :: "real list \<Rightarrow> pydict \<Rightarrow> error + pyval"

text \<open>
  \<open>dict.keys()\<close> is a list, a snapshot, in Python 2 and a view of the dictionary in
  Python 3. The view follows the dictionary held in \<open>self.parameters\<close>, which the sampler
  mutates in place.
\<close>

datatype pykeys = KeyList "string list" | KeyView

record gaussian_likelihood =
  gl_x :: "real list"
  gl_y :: "real list"
  gl_N :: nat
  gl_sigma :: pyval
  gl_function :: pyfunc
  gl_parameters :: pydict
  gl_function_keys :: pykeys

text \<open>\<open>parameters.pop(0)\<close> raises IndexError when the function has no argument.\<close>

definition GaussianLikelihood_init ::
  "pyver \<Rightarrow> real list \<Rightarrow> real list \<Rightarrow> pyfunc \<Rightarrow> pyval \<Rightarrow> error + gaussian_likelihood" where
  "GaussianLikelihood_init ver x y function sigma =
     (case args function of
        [] \<Rightarrow> Inl IndexError
      | _ # parameters \<Rightarrow>
          let params = fromkeys parameters;
              function_keys = (case ver of Py2 \<Rightarrow> KeyList (map fst params) | Py3 \<Rightarrow> KeyView);
              params' = (if sigma = PNone then AList.update ''sigma'' PNone params else params)
          in Inr \<lparr>gl_x = x, gl_y = y, gl_N = length x, gl_sigma = sigma,
                  gl_function = function, gl_parameters = params',
                  gl_function_keys = function_keys\<rparr>)"

definition function_keys_now :: "gaussian_likelihood \<Rightarrow> string list" where
  "function_keys_now self =
     (case gl_function_keys self of
        KeyList ks \<Rightarrow> ks
      | KeyView \<Rightarrow> map fst (gl_parameters self))"

text \<open>The sampler's assignment \<open>likelihood.parameters[key] = value\<close>.\<close>

definition set_parameter :: "string \<Rightarrow> pyval \<Rightarrow> gaussian_likelihood \<Rightarrow> gaussian_likelihood" where
  "set_parameter key val self =
     self\<lparr>gl_parameters := AList.update key val (gl_parameters self)\<rparr>"

text \<open>
  The arithmetic of \<open>log_likelihood\<close> is numpy's and raises only on None and on shapes
  that cannot be broadcast. Where numpy divides by a zero sigma or takes the logarithm
  of zero it produces an infinity or NaN, which the reals do not have: the theorems
  about this function take sigma to be other than zero.
\<close>

definition GaussianLikelihood_log_likelihood :: "gaussian_likelihood \<Rightarrow> error + pyval" where
  "GaussianLikelihood_log_likelihood self =
     (let sigma = (case map_of (gl_parameters self) ''sigma'' of
                     Some s \<Rightarrow> s
                   | None \<Rightarrow> gl_sigma self)
      in bnd (dict_restrict (gl_parameters self) (function_keys_now self)) (\<lambda>model_parameters.
         bnd (call (gl_function self) (gl_x self) model_parameters) (\<lambda>model.
         bnd (np_op (-) (PArr (gl_y self)) model) (\<lambda>res.
         bnd (np_op (/) res sigma) (\<lambda>quot.
         bnd (np_map (\<lambda>a. a ^ 2) quot) (\<lambda>squares.
         bnd (np_sum squares) (\<lambda>chi.
         bnd (np_map (\<lambda>a. a ^ 2) sigma) (\<lambda>sigma2.
         bnd (np_map (\<lambda>a. 2 * pi * a) sigma2) (\<lambda>arg.
         bnd (np_map ln arg) (\<lambda>lg.
         bnd (np_map (\<lambda>a. real (gl_N self) * a) lg) (\<lambda>nlog.
         bnd (np_op (+) chi nlog) (\<lambda>total.
         np_map (\<lambda>a. - 0.5 * a) total))))))))))))"

text \<open>
  The linear model \<open>f(x, m, c) = m*x + c\<close> of the example: a call with a missing or an
  unexpected keyword argument raises TypeError.
\<close>

definition linear_model :: pyfunc where
  "linear_model =
     \<lparr>args = [''x'', ''m'', ''c''],
      call = (\<lambda>x kwargs.
        case map_of kwargs ''m'' of
          None \<Rightarrow> Inl TypeError
        | Some m \<Rightarrow>
            (case map_of kwargs ''c'' of
               None \<Rightarrow> Inl TypeError
             | Some c \<Rightarrow>
                 if list_all (\<lambda>k. k = ''m'' \<or> k = ''c'') (map fst kwargs)
                 then bnd (np_op (*) m (PArr x)) (\<lambda>mx. np_op (+) mx c)
                 else Inl TypeError))\<rparr>"

subsection \<open>HyperparameterLikelihood\<close>

text \<open>
  A float64 with its special values; the finite ones are real numbers.
\<close>

datatype fl = Fin real | PInf | NInf | NaN

fun fl_add :: "fl \<Rightarrow> fl \<Rightarrow> fl" where
  "fl_add NaN _ = NaN"
| "fl_add _ NaN = NaN"
| "fl_add PInf NInf = NaN"
| "fl_add NInf PInf = NaN"
| "fl_add PInf _ = PInf"
| "fl_add _ PInf = PInf"
| "fl_add NInf _ = NInf"
| "fl_add _ NInf = NInf"
| "fl_add (Fin a) (Fin b) = Fin (a + b)"

definition fl_sign_inf :: "bool \<Rightarrow> fl" where
  "fl_sign_inf positive = (if positive then PInf else NInf)"

fun fl_mul :: "fl \<Rightarrow> fl \<Rightarrow> fl" where
  "fl_mul NaN _ = NaN"
| "fl_mul _ NaN = NaN"
| "fl_mul (Fin a) (Fin b) = Fin (a * b)"
| "fl_mul (Fin a) PInf = (if a = 0 then NaN else fl_sign_inf (0 < a))"
| "fl_mul (Fin a) NInf = (if a = 0 then NaN else fl_sign_inf (a < 0))"
| "fl_mul PInf (Fin b) = (if b = 0 then NaN else fl_sign_inf (0 < b))"
| "fl_mul NInf (Fin b) = (if b = 0 then NaN else fl_sign_inf (b < 0))"
| "fl_mul PInf PInf = PInf"
| "fl_mul NInf NInf = PInf"
| "fl_mul PInf NInf = NInf"
| "fl_mul NInf PInf = NInf"

text \<open>numpy's division raises nothing: a zero divisor gives an infinity or NaN.\<close>

fun fl_div :: "fl \<Rightarrow> fl \<Rightarrow> fl" where
  "fl_div NaN _ = NaN"
| "fl_div _ NaN = NaN"
| "fl_div (Fin a) (Fin b) =
     (if b \<noteq> 0 then Fin (a / b) else if a = 0 then NaN else fl_sign_inf (0 < a))"
| "fl_div (Fin a) PInf = Fin 0"
| "fl_div (Fin a) NInf = Fin 0"
| "fl_div PInf (Fin b) = fl_sign_inf (0 \<le> b)"
| "fl_div NInf (Fin b) = fl_sign_inf (b < 0)"
| "fl_div PInf PInf = NaN"
| "fl_div PInf NInf = NaN"
| "fl_div NInf PInf = NaN"
| "fl_div NInf NInf = NaN"

fun fl_log :: "fl \<Rightarrow> fl" where
  "fl_log NaN = NaN"
| "fl_log PInf = PInf"
| "fl_log NInf = NaN"
| "fl_log (Fin a) = (if 0 < a then Fin (ln a) else if a = 0 then NInf else NaN)"

definition fl_sum :: "fl list \<Rightarrow> fl" where
  "fl_sum xs = fold (\<lambda>x acc. fl_add acc x) xs (Fin 0)"

text \<open>The largest finite float64.\<close>

definition float_max :: real where
  "float_max = (2 - 1 / 2 ^ 52) * 2 ^ 1023"

text \<open>
  \<open>np.nan_to_num\<close>: NaN becomes zero, an infinity the finite float of largest
  magnitude and the same sign.
\<close>

fun nan_to_num :: "fl \<Rightarrow> fl" where
  "nan_to_num NaN = Fin 0"
| "nan_to_num PInf = Fin float_max"
| "nan_to_num NInf = Fin (- float_max)"
| "nan_to_num (Fin a) = Fin a"

fun sequence_err :: "(error + 'a) list \<Rightarrow> error + 'a list" where
  "sequence_err [] = Inr []"
| "sequence_err (r # rs) = bnd r (\<lambda>v. bnd (sequence_err rs) (\<lambda>vs. Inr (v # vs)))"

text \<open>An elementwise operation on two-dimensional arrays, broadcast in both axes.\<close>

definition np_broadcast2 ::
  "('a \<Rightarrow> 'b \<Rightarrow> 'c) \<Rightarrow> 'a list list \<Rightarrow> 'b list list \<Rightarrow> error + 'c list list" where
  "np_broadcast2 f p q = bnd (np_broadcast (np_broadcast f) p q) sequence_err"

text \<open>Python's None, an int or a float, for \<open>max_samples\<close>.\<close>

datatype pynum = NoneN | IntN int | FloatN real

text \<open>
  One event's posterior, a pandas DataFrame seen through what the module uses of it:
  iteration over its column names, \<open>len\<close>, and \<open>sample(n)\<close>, whose result maps each
  column name to the drawn values.
\<close>

record posterior =
  po_keys :: "string list"
  po_len :: nat
  po_sample :: "int option \<Rightarrow> error + (string \<times> real list) list"

text \<open>
  A frame of \<open>n\<close> rows of zeros under the given column names. As in pandas,
  \<open>sample(None)\<close> draws one row, and a negative count or one above the number of rows
  raises ValueError.
\<close>

definition zero_frame :: "string list \<Rightarrow> nat \<Rightarrow> posterior" where
  "zero_frame keys n =
     \<lparr>po_keys = keys, po_len = n,
      po_sample = (\<lambda>count.
        let c = (case count of None \<Rightarrow> 1 | Some c \<Rightarrow> c)
        in if c < 0 \<or> int n < c then Inl ValueError
           else Inr (map (\<lambda>key. (key, replicate (nat c) 0)) keys))\<rparr>"

type_synonym data2 = "(string \<times> real list list) list"

text \<open>
  The population model: its hyperparameter dictionary and its \<open>prob\<close> method, which
  reads that dictionary. The sampling prior: its \<open>prob\<close> method and, when the object is
  callable, its \<open>__call__\<close>.
\<close>

record population_model =
  pm_parameters :: pydict
  pm_prob :: "pydict \<Rightarrow> data2 \<Rightarrow> error + fl list list"

record sampling_prior =
  sp_prob :: "data2 \<Rightarrow> error + fl list list"
  sp_call :: "(data2 \<Rightarrow> error + fl list list) option"

text \<open>
  The attribute \<open>parameters\<close> is \<open>None\<close> until something assigns it: \<open>__init__\<close> does
  not.
\<close>

record hyper_likelihood =
  hl_posteriors :: "posterior list"
  hl_hyper_prior :: pydict
  hl_sampling_prior :: sampling_prior
  hl_model :: population_model
  hl_max_samples :: pynum
  hl_data :: data2
  hl_n_posteriors :: nat
  hl_samples_per_posterior :: nat
  hl_log_factor :: fl
  hl_parameters :: "pydict option"

text \<open>
  \<open>min(len(posterior), max_samples)\<close>. Python 2 orders None below every number;
  Python 3 raises TypeError. \<open>min\<close> returns its first argument unless the second is
  smaller.
\<close>

definition py_min_len :: "pyver \<Rightarrow> nat \<Rightarrow> int option \<Rightarrow> error + pynum" where
  "py_min_len ver n max_samples =
     (case max_samples of
        None \<Rightarrow> (case ver of Py2 \<Rightarrow> Inr NoneN | Py3 \<Rightarrow> Inl TypeError)
      | Some k \<Rightarrow> Inr (IntN (if k < int n then k else int n)))"

text \<open>The first loop of \<open>resample_posteriors\<close>, threading \<open>self.max_samples\<close>.\<close>

fun min_loop :: "pyver \<Rightarrow> posterior list \<Rightarrow> int option \<Rightarrow> pynum \<Rightarrow> error + pynum" where
  "min_loop ver [] max_samples cur = Inr cur"
| "min_loop ver (p # ps) max_samples cur =
     bnd (py_min_len ver (po_len p) max_samples) (\<lambda>cur'. min_loop ver ps max_samples cur')"

text \<open>
  The second loop: each posterior is sampled with the argument \<open>max_samples\<close> and its
  columns are appended to the lists of \<open>data\<close>; \<open>temp[key]\<close> raises KeyError.
\<close>

fun append_columns :: "(string \<times> real list) list \<Rightarrow> data2 \<Rightarrow> error + data2" where
  "append_columns temp [] = Inr []"
| "append_columns temp ((key, rows) # rest) =
     (case map_of temp key of
        None \<Rightarrow> Inl KeyError
      | Some col \<Rightarrow> bnd (append_columns temp rest) (\<lambda>r. Inr ((key, rows @ [col]) # r)))"

fun sample_loop :: "posterior list \<Rightarrow> int option \<Rightarrow> data2 \<Rightarrow> error + data2" where
  "sample_loop [] max_samples data = Inr data"
| "sample_loop (p # ps) max_samples data =
     bnd (po_sample p max_samples) (\<lambda>temp.
     bnd (append_columns temp data) (\<lambda>data'. sample_loop ps max_samples data'))"

text \<open>
  \<open>resample_posteriors(max_samples)\<close> returns the data and leaves \<open>self.max_samples\<close>
  changed. \<open>self.posteriors[0]\<close> raises IndexError on an empty list. The debug message
  is not part of the result.
\<close>

definition resample_posteriors ::
  "pyver \<Rightarrow> hyper_likelihood \<Rightarrow> int option \<Rightarrow> error + hyper_likelihood \<times> data2" where
  "resample_posteriors ver self max_samples =
     (let self1 = (case max_samples of
                     None \<Rightarrow> self
                   | Some k \<Rightarrow> self\<lparr>hl_max_samples := IntN k\<rparr>)
      in bnd (min_loop ver (hl_posteriors self1) max_samples (hl_max_samples self1)) (\<lambda>cur.
         let self2 = self1\<lparr>hl_max_samples := cur\<rparr> in
         case hl_posteriors self2 of
           [] \<Rightarrow> Inl IndexError
         | first # _ \<Rightarrow>
             bnd (sample_loop (hl_posteriors self2) max_samples
                    (map (\<lambda>key. (key, [])) (po_keys first))) (\<lambda>data.
             Inr (self2, data))))"

text \<open>
  \<open>np.shape\<close> of \<open>np.array\<close> applied to a list of rows: two axes when the rows have one
  length, one axis otherwise.
\<close>

definition np_shape :: "real list list \<Rightarrow> nat list" where
  "np_shape rows =
     (case rows of
        [] \<Rightarrow> [0]
      | r # rs \<Rightarrow>
          if list_all (\<lambda>s. length s = length r) rs then [length rows, length r]
          else [length rows])"

text \<open>
  \<open>self.data.values()[0]\<close>: Python 3 cannot index the values view (TypeError); Python 2
  raises IndexError on an empty dictionary.
\<close>

definition first_value :: "pyver \<Rightarrow> data2 \<Rightarrow> error + real list list" where
  "first_value ver data =
     (case ver of
        Py3 \<Rightarrow> Inl TypeError
      | Py2 \<Rightarrow> (case data of [] \<Rightarrow> Inl IndexError | (_, rows) # _ \<Rightarrow> Inr rows))"

text \<open>
  \<open>Likelihood.__init__(model.parameters)\<close> passes the model's hyperparameter
  dictionary where the instance belongs. Python 2 refuses an unbound method whose first
  argument is no Likelihood (TypeError); Python 3 runs the initialiser on the
  dictionary, and its assignment \<open>self.parameters = parameters\<close> raises AttributeError.
\<close>

definition Likelihood_init_unbound :: "pyver \<Rightarrow> pydict \<Rightarrow> error + unit" where
  "Likelihood_init_unbound ver d = (case ver of Py2 \<Rightarrow> Inl TypeError | Py3 \<Rightarrow> Inl AttributeError)"

text \<open>Lines 123 to 133 of \<open>HyperparameterLikelihood.__init__\<close>, after its first call.\<close>

definition HyperparameterLikelihood_init_body ::
  "pyver \<Rightarrow> posterior list \<Rightarrow> pydict \<Rightarrow> population_model \<Rightarrow> sampling_prior \<Rightarrow> pynum
     \<Rightarrow> error + hyper_likelihood" where
  "HyperparameterLikelihood_init_body ver posteriors hyper_prior model sampling_prior max_samples =
     (let self = \<lparr>hl_posteriors = posteriors, hl_hyper_prior = hyper_prior,
                   hl_sampling_prior = sampling_prior, hl_model = model,
                   hl_max_samples = max_samples, hl_data = [], hl_n_posteriors = 0,
                   hl_samples_per_posterior = 0, hl_log_factor = Fin 0,
                   hl_parameters = None\<rparr>
      in bnd (resample_posteriors ver self None) (\<lambda>(self1, data).
         bnd (first_value ver data) (\<lambda>rows.
         let n_posteriors = Min (set (np_shape rows));
             samples_per_posterior = Max (set (np_shape rows))
         in Inr (self1\<lparr>hl_data := data, hl_n_posteriors := n_posteriors,
                   hl_samples_per_posterior := samples_per_posterior,
                   hl_log_factor := fl_mul (Fin (- real n_posteriors))
                                       (fl_log (Fin (real samples_per_posterior)))\<rparr>))))"

definition HyperparameterLikelihood_init ::
  "pyver \<Rightarrow> posterior list \<Rightarrow> pydict \<Rightarrow> population_model \<Rightarrow> sampling_prior \<Rightarrow> pynum
     \<Rightarrow> error + hyper_likelihood" where
  "HyperparameterLikelihood_init ver posteriors hyper_prior model sampling_prior max_samples =
     bnd (Likelihood_init_unbound ver (pm_parameters model)) (\<lambda>_.
       HyperparameterLikelihood_init_body ver posteriors hyper_prior model sampling_prior
         max_samples)"

text \<open>
  \<open>log_likelihood\<close> returns the instance, whose model now carries the updated
  hyperparameters, and the value. A missing attribute \<open>parameters\<close> raises
  AttributeError; calling a sampling prior that is not callable raises TypeError.
\<close>

definition HyperparameterLikelihood_log_likelihood ::
  "hyper_likelihood \<Rightarrow> error + hyper_likelihood \<times> fl" where
  "HyperparameterLikelihood_log_likelihood self =
     (case hl_parameters self of
        None \<Rightarrow> Inl AttributeError
      | Some params \<Rightarrow>
          let model = (hl_model self)
                \<lparr>pm_parameters := dict_update (pm_parameters (hl_model self)) params\<rparr>;
              self1 = self\<lparr>hl_model := model\<rparr>
          in bnd (pm_prob model (pm_parameters model) (hl_data self1)) (\<lambda>p.
             bnd (case sp_call (hl_sampling_prior self1) of
                    None \<Rightarrow> Inl TypeError
                  | Some c \<Rightarrow> c (hl_data self1)) (\<lambda>q.
             bnd (np_broadcast2 fl_div p q) (\<lambda>ratio.
             let log_l = fl_add (fl_sum (map fl_log (map fl_sum ratio))) (hl_log_factor self1)
             in Inr (self1, nan_to_num log_l)))))"

subsection \<open>Example instances\<close>

text \<open>
  The example of the linear model on \<open>x = [0, 1, 2]\<close>, \<open>y = [0, 1, 2]\<close>: the instance is
  constructed and the sampler then assigns the listed parameters.
\<close>

definition example_likelihood ::
  "pyver \<Rightarrow> pyval \<Rightarrow> (string \<times> pyval) list \<Rightarrow> error + gaussian_likelihood" where
  "example_likelihood ver sigma assignments =
     bnd (GaussianLikelihood_init ver [0, 1, 2] [0, 1, 2] linear_model sigma) (\<lambda>self.
       Inr (fold (\<lambda>(key, val) s. set_parameter key val s) assignments self))"

text \<open>
  A hyperparameter likelihood over two events of two samples each, whose sampling prior
  is the kind of object the class documents: it has a \<open>prob\<close> method and is not
  callable. Both \<open>prob\<close> methods return non-negative finite arrays, with zeros. The
  caller has assigned the attribute \<open>parameters\<close>.
\<close>

definition prob_only_example :: hyper_likelihood where
  "prob_only_example =
     \<lparr>hl_posteriors = [zero_frame [''mu''] 2, zero_frame [''mu''] 2], hl_hyper_prior = [],
      hl_sampling_prior = \<lparr>sp_prob = (\<lambda>d. Inr [[Fin 0, Fin 1], [Fin 1, Fin 1]]),
                           sp_call = None\<rparr>,
      hl_model = \<lparr>pm_parameters = [],
                  pm_prob = (\<lambda>ps d. Inr [[Fin 0, Fin 0], [Fin 1, Fin 2]])\<rparr>,
      hl_max_samples = IntN 2, hl_data = [(''mu'', [[0, 0], [0, 0]])], hl_n_posteriors = 2,
      hl_samples_per_posterior = 2, hl_log_factor = Fin (- 2 * ln 2),
      hl_parameters = Some [(''mu'', PNum 1)]\<rparr>"

text \<open>Two posterior sets, of 500 and of 300 samples of one parameter.\<close>

definition two_events :: "posterior list" where
  "two_events = [zero_frame [''mu''] 500, zero_frame [''mu''] 300]"

section \<open>Properties of tupak/gw/utils.py\<close>

subsection \<open>Auxiliary facts\<close>

lemma bnd_Inr [simp]: "bnd (Inr v) f = f v"
  by (simp add: bnd_def)

lemma bnd_Inl [simp]: "bnd (Inl e) f = Inl e"
  by (simp add: bnd_def)

lemma np_broadcast_same:
  "length xs = length ys \<Longrightarrow> np_broadcast f xs ys = Inr (map2 f xs ys)"
  by (simp add: np_broadcast_def)

lemma np_broadcast_returns:
  "length xs = length ys \<or> length xs = 1 \<or> length ys = 1 \<Longrightarrow>
   \<exists>zs. np_broadcast f xs ys = Inr zs"
  by (auto simp: np_broadcast_def)

lemma np_broadcast_elems:
  assumes "np_broadcast f xs ys = Inr zs" and "z \<in> set zs"
  shows "\<exists>a\<in>set xs. \<exists>b\<in>set ys. z = f a b"
proof (cases "length xs = length ys")
  case True
  with assms have "z \<in> set (map2 f xs ys)" by (simp add: np_broadcast_def)
  then obtain a b where ab: "(a, b) \<in> set (zip xs ys)" and z: "z = f a b" by auto
  have "a \<in> set xs" using ab by (rule set_zip_leftD)
  moreover have "b \<in> set ys" using ab by (rule set_zip_rightD)
  ultimately show ?thesis using z by blast
next
  case ne: False
  show ?thesis
  proof (cases "length xs = 1")
    case True
    then obtain x where x: "xs = [x]" by (cases xs) simp_all
    from ne True assms(1) have "zs = map (f (hd xs)) ys" by (simp add: np_broadcast_def)
    with assms(2) x show ?thesis by auto
  next
    case n1: False
    show ?thesis
    proof (cases "length ys = 1")
      case True
      then obtain y where y: "ys = [y]" by (cases ys) simp_all
      from ne n1 True assms(1) have "zs = map (\<lambda>a. f a (hd ys)) xs" by (simp add: np_broadcast_def)
      with assms(2) y show ?thesis by auto
    next
      case False
      with ne n1 assms(1) show ?thesis by (simp add: np_broadcast_def)
    qed
  qed
qed

lemma sum_list_real_nonneg:
  "(\<And>z. z \<in> set zs \<Longrightarrow> Im z = 0 \<and> 0 \<le> Re z) \<Longrightarrow>
   Im (sum_list zs) = 0 \<and> 0 \<le> Re (sum_list zs)"
  by (induction zs) auto

lemma cnj_self_products:
  "np_broadcast (*) (map cnj s) s = Inr (map (\<lambda>a. cnj a * a) s)"
  by (simp add: np_broadcast_def zip_map1 zip_same_conv_map)

lemma sum_list_map2_minus_swap:
  "length zs = length xs \<Longrightarrow> length xs = length ys \<Longrightarrow>
   sum_list (map2 (*) zs (map2 (-) ys xs)) =
     - sum_list (map2 (*) zs (map2 (-) xs (ys::real list)))"
proof (induction zs xs ys rule: list_induct3)
  case Nil
  then show ?case by simp
next
  case (Cons z zs x xs y ys)
  have "z * (y - x) = - (z * (x - y))" by (simp add: right_diff_distrib)
  with Cons.IH show ?case by simp
qed

lemma transpose3:
  "transpose [[a, b, c], [d, e, f], [g, h, i]] = [[a, d, g], [b, e, h], [c, f, i]]"
  by simp

lemma trace3: "trace [[a, b, c], [d, e, f], [g, h, i]] = a + e + i"
  by (simp add: trace_def upt_rec)

lemma outer3:
  "einsum_outer [a, b, c] [d, e, f] =
     [[a * d, a * e, a * f], [b * d, b * e, b * f], [c * d, c * e, c * f]]"
  by (simp add: einsum_outer_def)

lemma lower_CROSS: "lower ''CROSS'' = ''cross''"
  by (simp add: lower_def lower_char_def)

text \<open>
  The wave-frame vectors have three entries each, the same length, and are orthogonal:
  \<open>u\<close> and \<open>v\<close> are orthonormal and \<open>(m, n)\<close> is their rotation by \<open>psi\<close>.
\<close>

lemma wave_frame_shape:
  "\<exists>m0 m1 m2 n0 n1 n2. wave_frame U ra dec time psi = ([m0, m1, m2], [n0, n1, n2])
      \<and> m0 * m0 + m1 * m1 + m2 * m2 = n0 * n0 + n1 * n1 + n2 * n2
      \<and> m0 * n0 + m1 * n1 + m2 * n2 = 0"
proof -
  obtain theta phi where tp: "ra_dec_to_theta_phi U ra dec (gps_time_to_gmst U time) = (theta, phi)"
    by (cases "ra_dec_to_theta_phi U ra dec (gps_time_to_gmst U time)")
  define a b c d s k where "a = cos phi" and "b = sin phi" and "c = cos theta" and "d = sin theta"
    and "s = sin psi" and "k = cos psi"
  have ab: "a * a + b * b = 1" and cd: "c * c + d * d = 1"
    unfolding a_def b_def c_def d_def
    by (simp_all add: power2_eq_square[symmetric])
  have uu: "(a*c)*(a*c) + (c*b)*(c*b) + d*d = 1"
  proof -
    have "(a*c)*(a*c) + (c*b)*(c*b) + d*d = (a*a + b*b) * (c*c) + d*d" by (simp add: algebra_simps)
    also have "\<dots> = 1" using ab cd by simp
    finally show ?thesis .
  qed
  define m0 m1 m2 n0 n1 n2 where "m0 = - (a*c)*s - (-b)*k" and "m1 = - (c*b)*s - a*k"
    and "m2 = -(-d)*s - 0*k" and "n0 = - (a*c)*k + (-b)*s" and "n1 = - (c*b)*k + a*s"
    and "n2 = -(-d)*k + 0*s"
  have wf: "wave_frame U ra dec time psi = ([m0, m1, m2], [n0, n1, n2])"
    unfolding m0_def m1_def m2_def n0_def n1_def n2_def a_def b_def c_def d_def s_def k_def
    by (simp add: wave_frame_def tp vec_sub_def vec_add_def vec_scale_def vec_neg_def)
  have mm: "m0 * m0 + m1 * m1 + m2 * m2
       = s*s * ((a*c)*(a*c) + (c*b)*(c*b) + d*d) + k*k * (a*a + b*b)"
    unfolding m0_def m1_def m2_def by (simp add: algebra_simps)
  have nn: "n0 * n0 + n1 * n1 + n2 * n2
       = k*k * ((a*c)*(a*c) + (c*b)*(c*b) + d*d) + s*s * (a*a + b*b)"
    unfolding n0_def n1_def n2_def by (simp add: algebra_simps)
  have mn: "m0 * n0 + m1 * n1 + m2 * n2
       = s*k * ((a*c)*(a*c) + (c*b)*(c*b) + d*d) - s*k * (a*a + b*b)"
    unfolding m0_def m1_def m2_def n0_def n1_def n2_def by (simp add: algebra_simps)
  have e1: "m0 * m0 + m1 * m1 + m2 * m2 = n0 * n0 + n1 * n1 + n2 * n2"
    unfolding mm nn uu ab by simp
  have e2: "m0 * n0 + m1 * n1 + m2 * n2 = 0"
    unfolding mn uu ab by simp
  from wf e1 e2 show ?thesis by blast
qed


subsection \<open>Unknown polarization modes\<close>

text \<open>
  C4, as stated: a mode name outside the six recognised ones makes
  \<open>get_polarization_tensor\<close> fail with an invalid-mode error. The code does not: at the
  mode \<open>foo\<close> it logs one warning and returns None.
\<close>

theorem unknown_mode_returns_None_counterexample:
  "get_polarization_tensor sample_core_utils 0 0 0 0 ''foo'' =
     ([''foo not a polarization mode!''], None)"
  by (simp add: get_polarization_tensor_def Let_def lower_def lower_char_def split: prod.splits)

text \<open>
  C4, amended: for every sky position, time and polarization angle, a mode whose
  lower-cased name is none of plus, cross, breathing, longitudinal, x, y makes
  \<open>get_polarization_tensor\<close> log the warning "<mode> not a polarization mode!" and
  return None; it raises nothing.
\<close>

theorem unknown_mode_logs_and_returns_None:
  assumes "lower mode \<notin> {''plus'', ''cross'', ''breathing'', ''longitudinal'', ''x'', ''y''}"
  shows "get_polarization_tensor U ra dec time psi mode =
           ([mode @ '' not a polarization mode!''], None)"
  using assms by (simp add: get_polarization_tensor_def Let_def split: prod.splits)

theorem unknown_mode_logs_and_returns_None_witness:
  "lower ''Scalar'' \<notin> {''plus'', ''cross'', ''breathing'', ''longitudinal'', ''x'', ''y''}
   \<and> get_polarization_tensor sample_core_utils 1 2 3 4 ''Scalar'' =
       ([''Scalar not a polarization mode!''], None)"
proof -
  have h: "lower ''Scalar'' \<notin> {''plus'', ''cross'', ''breathing'', ''longitudinal'', ''x'', ''y''}"
    by (simp add: lower_def lower_char_def)
  from h unknown_mode_logs_and_returns_None [OF h, of sample_core_utils 1 2 3 4]
  show ?thesis by simp
qed

subsection \<open>Antisymmetry of the geocentric time delay\<close>

text \<open>
  C6: for all detector vertex 3-vectors \<open>d1\<close>, \<open>d2\<close> and every \<open>ra\<close>, \<open>dec\<close> and GPS
  time, \<open>time_delay_geocentric\<close> returns a delay, and exchanging the two detectors
  negates it.
\<close>

theorem time_delay_geocentric_antisymmetric:
  assumes "length d1 = 3" "length d2 = 3"
  shows "\<exists>t. time_delay_geocentric U d1 d2 ra dec time = Inr t
           \<and> time_delay_geocentric U d2 d1 ra dec time = Inr (- t)"
proof -
  obtain theta phi where
    tp: "ra_dec_to_theta_phi U ra dec (gps_time_to_gmst U time) = (theta, phi)"
    by (cases "ra_dec_to_theta_phi U ra dec (gps_time_to_gmst U time)")
  let ?om = "[sin theta * cos phi, sin theta * sin phi, cos theta]"
  have l: "length ?om = length d1" "length d1 = length d2" using assms by simp_all
  have a: "time_delay_geocentric U d1 d2 ra dec time
      = Inr (sum_list (map2 (*) ?om (map2 (-) d2 d1)) / speed_of_light U)"
    using assms by (simp add: time_delay_geocentric_def tp np_broadcast_same np_dot_def)
  have b: "time_delay_geocentric U d2 d1 ra dec time
      = Inr (sum_list (map2 (*) ?om (map2 (-) d1 d2)) / speed_of_light U)"
    using assms by (simp add: time_delay_geocentric_def tp np_broadcast_same np_dot_def)
  show ?thesis
    unfolding a b sum_list_map2_minus_swap [OF l] by simp
qed

theorem time_delay_geocentric_antisymmetric_witness:
  "length [1, 2, 3 :: real] = 3 \<and> length [0, 0, 0 :: real] = 3 \<and>
   (\<exists>t. time_delay_geocentric sample_core_utils [1, 2, 3] [0, 0, 0] 0 0 0 = Inr t
       \<and> time_delay_geocentric sample_core_utils [0, 0, 0] [1, 2, 3] 0 0 0 = Inr (- t))"
  using time_delay_geocentric_antisymmetric [of "[1, 2, 3]" "[0, 0, 0]" sample_core_utils 0 0 0]
  by simp

subsection \<open>Symmetry and trace of the tensor modes\<close>

text \<open>
  C7: for every \<open>ra\<close>, \<open>dec\<close>, \<open>psi\<close> and time, the tensor returned for the modes plus,
  cross and breathing (in any letter case) equals its transpose, and the trace of the
  plus and cross tensors is zero. Over the reals the trace is exactly zero.
\<close>

theorem polarization_tensor_symmetric_traceless:
  assumes "lower mode \<in> {''plus'', ''cross'', ''breathing''}"
  shows "\<exists>T. get_polarization_tensor U ra dec time psi mode = ([], Some T)
            \<and> transpose T = T
            \<and> (lower mode \<noteq> ''breathing'' \<longrightarrow> trace T = 0)"
proof -
  obtain m0 m1 m2 n0 n1 n2 where wf: "wave_frame U ra dec time psi = ([m0, m1, m2], [n0, n1, n2])"
    and e1: "m0 * m0 + m1 * m1 + m2 * m2 = n0 * n0 + n1 * n1 + n2 * n2"
    and e2: "m0 * n0 + m1 * n1 + m2 * n2 = 0"
    using wave_frame_shape by blast
  from assms consider "lower mode = ''plus''" | "lower mode = ''cross''" | "lower mode = ''breathing''"
    by auto
  then show ?thesis
  proof cases
    case 1
    have "get_polarization_tensor U ra dec time psi mode =
      ([], Some (mat_sub (einsum_outer [m0, m1, m2] [m0, m1, m2]) (einsum_outer [n0, n1, n2] [n0, n1, n2])))"
      by (simp add: get_polarization_tensor_def wf 1)
    moreover have "2 * (m0 * n0 + m1 * n1 + m2 * n2) = 0" using e2 by simp
    ultimately show ?thesis using e1
      by (simp add: outer3 mat_sub_def trace3 mult.commute)
  next
    case 2
    have "get_polarization_tensor U ra dec time psi mode =
      ([], Some (mat_add (einsum_outer [m0, m1, m2] [n0, n1, n2]) (einsum_outer [n0, n1, n2] [m0, m1, m2])))"
      by (simp add: get_polarization_tensor_def wf 2)
    moreover have "m0 * n0 + n0 * m0 + (m1 * n1 + n1 * m1) + (m2 * n2 + n2 * m2) = 0" 
      using e2 by (simp add: mult.commute)
    ultimately show ?thesis
      by (simp add: outer3 mat_add_def trace3 add.commute)
  next
    case 3
    have "get_polarization_tensor U ra dec time psi mode =
      ([], Some (mat_add (einsum_outer [m0, m1, m2] [m0, m1, m2]) (einsum_outer [n0, n1, n2] [n0, n1, n2])))"
      by (simp add: get_polarization_tensor_def wf 3)
    then show ?thesis
      by (simp add: 3 outer3 mat_add_def mult.commute)
  qed
qed

theorem polarization_tensor_symmetric_traceless_witness:
  "lower ''Plus'' \<in> {''plus'', ''cross'', ''breathing''} \<and>
   (\<exists>T. get_polarization_tensor sample_core_utils 1 2 3 4 ''Plus'' = ([], Some T)
       \<and> transpose T = T \<and> trace T = 0)"
  using polarization_tensor_symmetric_traceless [of "''Plus''" sample_core_utils 1 2 3 4]
  by (simp add: lower_def lower_char_def)

subsection \<open>Letter case of the mode name\<close>

text \<open>
  C10: for every \<open>ra\<close>, \<open>dec\<close>, time and \<open>psi\<close>, a mode whose lower-cased form is one of
  the six recognised names returns a tensor, the same one as the all-lowercase name.
\<close>

theorem polarization_mode_case_insensitive:
  assumes "name \<in> {''plus'', ''cross'', ''breathing'', ''longitudinal'', ''x'', ''y''}"
    and "lower mode = name"
  shows "get_polarization_tensor U ra dec time psi mode = get_polarization_tensor U ra dec time psi name
    \<and> (\<exists>T. get_polarization_tensor U ra dec time psi mode = ([], Some T))"
proof -
  have "lower name = name" using assms(1) by (auto simp: lower_def lower_char_def)
  then have eq: "lower mode = lower name" using assms(2) by simp
  have a: "get_polarization_tensor U ra dec time psi mode = get_polarization_tensor U ra dec time psi name"
    using assms(1) assms(2) \<open>lower name = name\<close>
    by (auto simp add: get_polarization_tensor_def Let_def split: prod.splits)
  have b: "\<exists>T. get_polarization_tensor U ra dec time psi mode = ([], Some T)"
    using assms
    by (auto simp add: get_polarization_tensor_def Let_def split: prod.splits)
  from a b show ?thesis by simp
qed

theorem polarization_mode_case_insensitive_witness:
  "lower ''CROSS'' = ''cross'' \<and>
   get_polarization_tensor sample_core_utils 1 2 3 4 ''CROSS'' =
     get_polarization_tensor sample_core_utils 1 2 3 4 ''cross''
   \<and> (\<exists>T. get_polarization_tensor sample_core_utils 1 2 3 4 ''CROSS'' = ([], Some T))"
proof -
  have "get_polarization_tensor sample_core_utils 1 2 3 4 ''CROSS'' =
     get_polarization_tensor sample_core_utils 1 2 3 4 ''cross''
   \<and> (\<exists>T. get_polarization_tensor sample_core_utils 1 2 3 4 ''CROSS'' = ([], Some T))"
    by (rule polarization_mode_case_insensitive [OF _ lower_CROSS]) simp
  with lower_CROSS show ?thesis by blast
qed

subsection \<open>The two signal-to-noise ratios\<close>

text \<open>
  C8: \<open>matched_filter_snr_squared\<close> and \<open>optimal_snr_squared\<close> are calls of
  \<open>noise_weighted_inner_product\<close> that differ only in the second argument, and they
  agree whenever the detector's frequency-domain strain is the signal itself (the
  spectral density and the duration being the same in both calls).
\<close>

theorem snr_matched_equals_optimal:
  "matched_filter_snr_squared s ifo T =
      noise_weighted_inner_product s (frequency_domain_strain ifo)
        (power_spectral_density_array ifo) T
   \<and> optimal_snr_squared s ifo T =
      noise_weighted_inner_product s s (power_spectral_density_array ifo) T
   \<and> (frequency_domain_strain ifo = s \<longrightarrow>
        matched_filter_snr_squared s ifo T = optimal_snr_squared s ifo T)"
  by (simp add: matched_filter_snr_squared_def optimal_snr_squared_def)

theorem snr_matched_equals_optimal_witness:
  "matched_filter_snr_squared [Complex 1 1, Complex 2 0]
     \<lparr>frequency_domain_strain = [Complex 1 1, Complex 2 0],
      power_spectral_density_array = [1, 2]\<rparr> 4
   = optimal_snr_squared [Complex 1 1, Complex 2 0]
     \<lparr>frequency_domain_strain = [Complex 1 1, Complex 2 0],
      power_spectral_density_array = [1, 2]\<rparr> 4
   \<and> optimal_snr_squared [Complex 1 1, Complex 2 0]
     \<lparr>frequency_domain_strain = [Complex 1 1, Complex 2 0],
      power_spectral_density_array = [1, 2]\<rparr> 4 = Inr 4"
  using snr_matched_equals_optimal [of "[Complex 1 1, Complex 2 0]"
    "\<lparr>frequency_domain_strain = [Complex 1 1, Complex 2 0],
      power_spectral_density_array = [1, 2]\<rparr>" 4]
  by (simp add: optimal_snr_squared_def noise_weighted_inner_product_def np_broadcast_def
      complex_eq_iff)

text \<open>
  C9: when every entry of the detector's spectral density is positive, the duration is
  positive and the shapes of signal and spectral density can be combined,
  \<open>optimal_snr_squared\<close> returns a value whose imaginary part is zero and whose real
  part is not negative.
\<close>

theorem optimal_snr_squared_real_nonneg:
  assumes psd: "\<forall>p \<in> set (power_spectral_density_array ifo). 0 < p"
    and T: "0 < time_duration"
    and shape: "length signal = length (power_spectral_density_array ifo)
                \<or> length signal = 1 \<or> length (power_spectral_density_array ifo) = 1"
  shows "\<exists>v. optimal_snr_squared signal ifo time_duration = Inr v \<and> Im v = 0 \<and> 0 \<le> Re v"
proof -
  let ?psd = "power_spectral_density_array ifo"
  let ?prod = "map (\<lambda>a. cnj a * a) signal"
  from shape obtain integrand where
    i: "np_broadcast (\<lambda>c p. c / complex_of_real p) ?prod ?psd = Inr integrand"
    using np_broadcast_returns[of ?prod ?psd] by auto
  have el: "Im z = 0 \<and> 0 \<le> Re z" if "z \<in> set integrand" for z
  proof -
    from np_broadcast_elems[OF i that] obtain c p where
      c: "c \<in> set ?prod" and p: "p \<in> set ?psd" and z: "z = c / complex_of_real p" by blast
    from c obtain a where "c = cnj a * a" by auto
    then have "Im c = 0" "0 \<le> Re c" by (simp_all add: mult.commute)
    moreover have "0 < p" using psd p by blast
    ultimately show ?thesis unfolding z by (simp add: Re_divide_of_real Im_divide_of_real)
  qed
  have s: "Im (sum_list integrand) = 0 \<and> 0 \<le> Re (sum_list integrand)"
    using el by (rule sum_list_real_nonneg)
  have r: "optimal_snr_squared signal ifo time_duration
      = Inr (complex_of_real (4 / time_duration) * sum_list integrand)"
    using T by (simp add: optimal_snr_squared_def noise_weighted_inner_product_def cnj_self_products i)
  show ?thesis unfolding r using s T by simp
qed

theorem optimal_snr_squared_real_nonneg_witness:
  "(0::real) < 1 \<and> (0::real) < 2 \<and> (0::real) < 4 \<and>
   (\<exists>v. optimal_snr_squared [Complex 1 1, Complex 2 0]
      \<lparr>frequency_domain_strain = [Complex 0 1, Complex 5 0],
       power_spectral_density_array = [1, 2]\<rparr> 4 = Inr v \<and> Im v = 0 \<and> 0 \<le> Re v)"
  using optimal_snr_squared_real_nonneg [of
    "\<lparr>frequency_domain_strain = [Complex 0 1, Complex 5 0],
      power_spectral_density_array = [1, 2]\<rparr>" 4 "[Complex 1 1, Complex 2 0]"]
  by simp

section \<open>Properties of tupak/core/likelihood.py\<close>

subsection \<open>Auxiliary facts\<close>

lemma update_values: "snd ` set (AList.update k v d) \<subseteq> insert v (snd ` set d)"
  by (induction d) auto

lemma fold_update_keys:
  "fst ` set (fold (\<lambda>k d. AList.update k v d) ks d) = set ks \<union> fst ` set d"
  by (induction ks arbitrary: d) (auto simp: dom_update)

lemma fold_update_distinct:
  "distinct (map fst d) \<Longrightarrow> distinct (map fst (fold (\<lambda>k d. AList.update k v d) ks d))"
  by (induction ks arbitrary: d) (simp_all add: distinct_update)

lemma fold_update_values:
  "snd ` set d \<subseteq> {v} \<Longrightarrow> snd ` set (fold (\<lambda>k d. AList.update k v d) ks d) \<subseteq> {v}"
proof (induction ks arbitrary: d)
  case Nil
  then show ?case by simp
next
  case (Cons k ks)
  have "snd ` set (AList.update k v d) \<subseteq> {v}"
    using update_values [of k v d] Cons.prems by auto
  then show ?case using Cons.IH by simp
qed

lemma fromkeys_keys: "fst ` set (fromkeys ks) = set ks"
  by (simp add: fromkeys_def fold_update_keys)

lemma fromkeys_distinct: "distinct (map fst (fromkeys ks))"
  by (simp add: fromkeys_def fold_update_distinct)

lemma fromkeys_values: "snd ` set (fromkeys ks) \<subseteq> {PNone}"
  by (simp add: fromkeys_def fold_update_values)

lemma nan_to_num_finite: "\<exists>r. nan_to_num v = Fin r"
  by (cases v) simp_all

lemma sequence_err_all_Inr: "sequence_err (map (\<lambda>x. Inr (g x)) xs) = Inr (map g xs)"
  by (induction xs) simp_all

lemma np_broadcast2_same_shape:
  assumes "list_all2 (\<lambda>r s. length r = length s) p q"
  shows "np_broadcast2 f p q = Inr (map2 (map2 f) p q)"
proof -
  have len: "length p = length q" using assms by (rule list_all2_lengthD)
  have rows: "map2 (np_broadcast f) p q = map (\<lambda>(r, s). Inr (map2 f r s)) (zip p q)"
    using assms by (induction p q rule: list_all2_induct) (simp_all add: np_broadcast_same)
  have "np_broadcast2 f p q = sequence_err (map (\<lambda>(r, s). Inr (map2 f r s)) (zip p q))"
    unfolding np_broadcast2_def np_broadcast_same [OF len] rows by simp
  also have "\<dots> = Inr (map (\<lambda>(r, s). map2 f r s) (zip p q))"
    unfolding split_def by (rule sequence_err_all_Inr)
  finally show ?thesis .
qed

subsection \<open>Parameters inferred at construction\<close>

text \<open>
  C3: when the model function has at least one formal argument, the constructor
  returns an instance whose parameter mapping has exactly the keys: the function's
  argument names after the first and, when no sigma was supplied, also \<open>sigma\<close>; every
  value is None. Under Python 2 the stored function keys are the argument names after
  the first.
\<close>

theorem gaussian_init_parameters:
  assumes "args function = first # rest"
  shows "\<exists>self. GaussianLikelihood_init ver x y function sigma = Inr self
     \<and> fst ` set (gl_parameters self) = set rest \<union> (if sigma = PNone then {''sigma''} else {})
     \<and> distinct (map fst (gl_parameters self))
     \<and> snd ` set (gl_parameters self) \<subseteq> {PNone}
     \<and> gl_N self = length x
     \<and> (ver = Py2 \<longrightarrow> (\<exists>ks. gl_function_keys self = KeyList ks \<and> set ks = set rest))"
proof (cases "sigma = PNone")
  case True
  have v: "snd ` set (AList.update ''sigma'' PNone (fromkeys rest)) \<subseteq> {PNone}"
    using update_values [of "''sigma''" PNone "fromkeys rest"] fromkeys_values [of rest] by auto
  have k: "set (map fst (fromkeys rest)) = set rest" using fromkeys_keys [of rest] by simp
  show ?thesis
    using True v k
    by (simp add: GaussianLikelihood_init_def assms Let_def dom_update fromkeys_keys
        distinct_update fromkeys_distinct del: set_map split: pyver.splits)
next
  case False
  have k: "set (map fst (fromkeys rest)) = set rest" using fromkeys_keys [of rest] by simp
  show ?thesis
    using False k
    by (simp add: GaussianLikelihood_init_def assms Let_def fromkeys_keys
        fromkeys_distinct fromkeys_values del: set_map split: pyver.splits)
qed

theorem gaussian_init_parameters_witness:
  "\<exists>self. GaussianLikelihood_init Py2 [0, 1, 2] [0, 1, 2] linear_model PNone = Inr self
     \<and> fst ` set (gl_parameters self) = {''m'', ''c'', ''sigma''}
     \<and> distinct (map fst (gl_parameters self))
     \<and> snd ` set (gl_parameters self) \<subseteq> {PNone}
     \<and> gl_N self = 3
     \<and> (\<exists>ks. gl_function_keys self = KeyList ks \<and> set ks = {''m'', ''c''})"
proof -
  have a: "args linear_model = ''x'' # [''m'', ''c'']" by (simp add: linear_model_def)
  from gaussian_init_parameters [OF a, of Py2 "[0, 1, 2]" "[0, 1, 2]" PNone]
  show ?thesis by (simp add: insert_commute numeral_3_eq_3)
qed

subsection \<open>The Gaussian log-likelihood\<close>

text \<open>
  Where the call of the model function on \<open>x\<close> with the parameters under the function
  keys returns an array \<open>model\<close> as long as \<open>y\<close>, and sigma, the entry \<open>sigma\<close> of the
  parameter mapping if there is one and the construction-time sigma otherwise, is a
  float other than zero, \<open>log_likelihood\<close> returns
  \<open>-0.5 * (sum(((y - model) / sigma)^2) + N * log(2 * pi * sigma^2))\<close>.
\<close>

lemma gaussian_log_likelihood_formula:
  assumes kw: "dict_restrict (gl_parameters self) (function_keys_now self) = Inr model_parameters"
    and model: "call (gl_function self) (gl_x self) model_parameters = Inr (PArr model)"
    and len: "length model = length (gl_y self)"
    and sig: "(case map_of (gl_parameters self) ''sigma'' of Some s \<Rightarrow> s | None \<Rightarrow> gl_sigma self)
               = PNum sigma"
    and nz: "sigma \<noteq> 0"
  shows "GaussianLikelihood_log_likelihood self =
           Inr (PNum (- 0.5 * (sum_list (map (\<lambda>r. (r / sigma) ^ 2) (map2 (-) (gl_y self) model))
                               + real (gl_N self) * ln (2 * pi * sigma ^ 2))))"
proof -
  have res: "np_broadcast (-) (gl_y self) model = Inr (map2 (-) (gl_y self) model)"
    using len by (simp add: np_broadcast_same)
  show ?thesis
    unfolding GaussianLikelihood_log_likelihood_def sig Let_def
    by (simp add: kw model res comp_def split_def)
qed

lemma example_fixed_sigma:
  "example_likelihood ver (PNum 1) [(''m'', PNum 1), (''c'', PNum 0)] =
     Inr \<lparr>gl_x = [0, 1, 2], gl_y = [0, 1, 2], gl_N = 3, gl_sigma = PNum 1,
          gl_function = linear_model, gl_parameters = [(''m'', PNum 1), (''c'', PNum 0)],
          gl_function_keys = (case ver of Py2 \<Rightarrow> KeyList [''m'', ''c''] | Py3 \<Rightarrow> KeyView)\<rparr>"
  by (simp add: example_likelihood_def GaussianLikelihood_init_def linear_model_def fromkeys_def
      set_parameter_def Let_def numeral_3_eq_3 split: pyver.splits)

lemma example_sampled_sigma:
  "example_likelihood Py2 PNone [(''m'', PNum 1), (''c'', PNum 0), (''sigma'', PNum 2)] =
     Inr \<lparr>gl_x = [0, 1, 2], gl_y = [0, 1, 2], gl_N = 3, gl_sigma = PNone,
          gl_function = linear_model,
          gl_parameters = [(''m'', PNum 1), (''c'', PNum 0), (''sigma'', PNum 2)],
          gl_function_keys = KeyList [''m'', ''c'']\<rparr>"
  by (simp add: example_likelihood_def GaussianLikelihood_init_def linear_model_def fromkeys_def
      set_parameter_def Let_def numeral_3_eq_3)

text \<open>
  The linear example with sigma fixed to 1 has the value \<open>-0.5 * (0 + 3 * log(2 * pi))\<close>
  under either interpreter; with a sampled sigma of 2, Python 2 returns
  \<open>-0.5 * (0 + 3 * log(2 * pi * 2^2))\<close>.
\<close>

lemma linear_example_values:
  "(\<exists>self. example_likelihood Py2 (PNum 1) [(''m'', PNum 1), (''c'', PNum 0)] = Inr self \<and>
      GaussianLikelihood_log_likelihood self = Inr (PNum (- 0.5 * (0 + 3 * ln (2 * pi)))))
   \<and> (\<exists>self. example_likelihood Py3 (PNum 1) [(''m'', PNum 1), (''c'', PNum 0)] = Inr self \<and>
      GaussianLikelihood_log_likelihood self = Inr (PNum (- 0.5 * (0 + 3 * ln (2 * pi)))))
   \<and> (\<exists>self. example_likelihood Py2 PNone
                 [(''m'', PNum 1), (''c'', PNum 0), (''sigma'', PNum 2)] = Inr self \<and>
      GaussianLikelihood_log_likelihood self =
        Inr (PNum (- 0.5 * (0 + 3 * ln (2 * pi * 2 ^ 2)))))"
proof -
  have fixed: "\<exists>self. example_likelihood ver (PNum 1) [(''m'', PNum 1), (''c'', PNum 0)] = Inr self \<and>
      GaussianLikelihood_log_likelihood self = Inr (PNum (- 0.5 * (0 + 3 * ln (2 * pi))))" for ver
  proof -
    let ?self = "\<lparr>gl_x = [0, 1, 2], gl_y = [0, 1, 2], gl_N = 3, gl_sigma = PNum 1,
          gl_function = linear_model, gl_parameters = [(''m'', PNum 1), (''c'', PNum 0)],
          gl_function_keys = (case ver of Py2 \<Rightarrow> KeyList [''m'', ''c''] | Py3 \<Rightarrow> KeyView)\<rparr>"
    have kw: "dict_restrict (gl_parameters ?self) (function_keys_now ?self)
        = Inr [(''m'', PNum 1), (''c'', PNum 0)]"
      by (simp add: function_keys_now_def split: pyver.splits)
    have model: "call (gl_function ?self) (gl_x ?self) [(''m'', PNum 1), (''c'', PNum 0)]
        = Inr (PArr [0, 1, 2])"
      by (simp add: linear_model_def)
    have len: "length [0, 1, 2 :: real] = length (gl_y ?self)" by simp
    have sig: "(case map_of (gl_parameters ?self) ''sigma'' of
                  Some s \<Rightarrow> s | None \<Rightarrow> gl_sigma ?self) = PNum 1"
      by simp
    have nz: "(1::real) \<noteq> 0" by simp
    from gaussian_log_likelihood_formula [OF kw model len sig nz] example_fixed_sigma [of ver]
    show ?thesis by simp
  qed
  have sampled: "\<exists>self. example_likelihood Py2 PNone
                 [(''m'', PNum 1), (''c'', PNum 0), (''sigma'', PNum 2)] = Inr self \<and>
      GaussianLikelihood_log_likelihood self =
        Inr (PNum (- 0.5 * (0 + 3 * ln (2 * pi * 2 ^ 2))))"
  proof -
    let ?self = "\<lparr>gl_x = [0, 1, 2], gl_y = [0, 1, 2], gl_N = 3, gl_sigma = PNone,
          gl_function = linear_model,
          gl_parameters = [(''m'', PNum 1), (''c'', PNum 0), (''sigma'', PNum 2)],
          gl_function_keys = KeyList [''m'', ''c'']\<rparr>"
    have kw: "dict_restrict (gl_parameters ?self) (function_keys_now ?self)
        = Inr [(''m'', PNum 1), (''c'', PNum 0)]"
      by (simp add: function_keys_now_def)
    have model: "call (gl_function ?self) (gl_x ?self) [(''m'', PNum 1), (''c'', PNum 0)]
        = Inr (PArr [0, 1, 2])"
      by (simp add: linear_model_def)
    have len: "length [0, 1, 2 :: real] = length (gl_y ?self)" by simp
    have sig: "(case map_of (gl_parameters ?self) ''sigma'' of
                  Some s \<Rightarrow> s | None \<Rightarrow> gl_sigma ?self) = PNum 2"
      by simp
    have nz: "(2::real) \<noteq> 0" by simp
    from gaussian_log_likelihood_formula [OF kw model len sig nz] example_sampled_sigma
    show ?thesis by simp
  qed
  from fixed [of Py2] fixed [of Py3] sampled show ?thesis by blast
qed

text \<open>
  C1 says that \<open>log_likelihood\<close> returns
  \<open>-0.5 * (sum((r / sigma)^2) + N * log(2 * pi * sigma^2))\<close> with
  \<open>r = y - model(x, **fit_parameters)\<close>, for a fixed and for a sampled sigma. The code
  with a sampled sigma, on the linear model with \<open>x = y = [0, 1, 2]\<close>, \<open>m = 1\<close>,
  \<open>c = 0\<close>, \<open>sigma = 2\<close>: the constructor takes \<open>self.function_keys\<close> from
  \<open>self.parameters.keys()\<close> and then adds the key \<open>sigma\<close> to the same dictionary.
  Under Python 3 the keys are a view, which now holds \<open>sigma\<close>, so that the model is
  called with the keyword \<open>sigma\<close> and raises TypeError. Under Python 2 the keys are a
  list taken before the addition, and the value of the claim is returned.
\<close>

theorem gaussian_sampled_sigma_keyword:
  "(\<exists>self. example_likelihood Py3 PNone
            [(''m'', PNum 1), (''c'', PNum 0), (''sigma'', PNum 2)] = Inr self
     \<and> function_keys_now self = [''m'', ''c'', ''sigma'']
     \<and> GaussianLikelihood_log_likelihood self = Inl TypeError)
   \<and> (\<exists>self. example_likelihood Py2 PNone
            [(''m'', PNum 1), (''c'', PNum 0), (''sigma'', PNum 2)] = Inr self
     \<and> function_keys_now self = [''m'', ''c'']
     \<and> GaussianLikelihood_log_likelihood self =
           Inr (PNum (- 0.5 * (0 + 3 * ln (2 * pi * 2 ^ 2)))))"
proof -
  have py3: "\<exists>self. example_likelihood Py3 PNone
            [(''m'', PNum 1), (''c'', PNum 0), (''sigma'', PNum 2)] = Inr self
     \<and> function_keys_now self = [''m'', ''c'', ''sigma'']
     \<and> GaussianLikelihood_log_likelihood self = Inl TypeError"
    by (simp add: example_likelihood_def GaussianLikelihood_init_def linear_model_def
        fromkeys_def set_parameter_def Let_def GaussianLikelihood_log_likelihood_def
        function_keys_now_def np_broadcast_def)
  have py2: "\<exists>self. example_likelihood Py2 PNone
            [(''m'', PNum 1), (''c'', PNum 0), (''sigma'', PNum 2)] = Inr self
     \<and> function_keys_now self = [''m'', ''c'']
     \<and> GaussianLikelihood_log_likelihood self =
           Inr (PNum (- 0.5 * (0 + 3 * ln (2 * pi * 2 ^ 2))))"
    by (simp add: example_likelihood_def GaussianLikelihood_init_def linear_model_def
        fromkeys_def set_parameter_def Let_def GaussianLikelihood_log_likelihood_def
        function_keys_now_def np_broadcast_def)
  from py3 py2 show ?thesis by blast
qed

subsection \<open>The hyperparameter log-likelihood\<close>

text \<open>
  Where the attribute \<open>parameters\<close> is set, the sampling prior is callable, and the two
  evaluations return arrays of one shape, \<open>log_likelihood\<close> returns a finite float,
  whatever the entries of the arrays are (zeros, infinities and NaN included):
  \<open>np.nan_to_num\<close> is applied last.
\<close>

lemma hyper_log_likelihood_finite:
  assumes params: "hl_parameters self = Some params"
    and callable: "sp_call (hl_sampling_prior self) = Some c"
    and q: "c (hl_data self) = Inr q"
    and p: "pm_prob (hl_model self) (dict_update (pm_parameters (hl_model self)) params)
              (hl_data self) = Inr p"
    and shape: "list_all2 (\<lambda>r s. length r = length s) p q"
  shows "\<exists>self' r. HyperparameterLikelihood_log_likelihood self = Inr (self', Fin r)"
proof -
  let ?log_l = "fl_add (fl_sum (map fl_log (map fl_sum (map2 (map2 fl_div) p q))))
                  (hl_log_factor self)"
  have "HyperparameterLikelihood_log_likelihood self =
      Inr (self\<lparr>hl_model := (hl_model self)
              \<lparr>pm_parameters := dict_update (pm_parameters (hl_model self)) params\<rparr>\<rparr>,
           nan_to_num ?log_l)"
    by (simp add: HyperparameterLikelihood_log_likelihood_def params callable q p
        np_broadcast2_same_shape [OF shape] Let_def comp_def)
  moreover obtain r where "nan_to_num ?log_l = Fin r" using nan_to_num_finite by blast
  ultimately show ?thesis by simp
qed

text \<open>
  With a callable sampling prior and the first event's ratios \<open>0/0\<close> and \<open>0/1\<close>, the
  sum over that event is NaN and the value returned is zero.
\<close>

lemma hyper_log_likelihood_nan_example:
  "\<exists>self'. HyperparameterLikelihood_log_likelihood
     \<lparr>hl_posteriors = [], hl_hyper_prior = [],
      hl_sampling_prior = \<lparr>sp_prob = (\<lambda>d. Inr [[Fin 0, Fin 1], [Fin 1, Fin 1]]),
                           sp_call = Some (\<lambda>d. Inr [[Fin 0, Fin 1], [Fin 1, Fin 1]])\<rparr>,
      hl_model = \<lparr>pm_parameters = [], pm_prob = (\<lambda>ps d. Inr [[Fin 0, Fin 0], [Fin 1, Fin 2]])\<rparr>,
      hl_max_samples = IntN 2, hl_data = [(''mu'', [[0, 0], [0, 0]])], hl_n_posteriors = 2,
      hl_samples_per_posterior = 2, hl_log_factor = Fin (- 2 * ln 2),
      hl_parameters = Some [(''mu'', PNum 1)]\<rparr> = Inr (self', Fin 0)"
  by (simp add: HyperparameterLikelihood_log_likelihood_def Let_def np_broadcast2_def
      np_broadcast_def fl_sum_def dict_update_def)

text \<open>
  The two ways in which the method raises before it reaches the arithmetic.
\<close>

lemma hyper_log_likelihood_not_callable:
  "hl_parameters self = Some params \<Longrightarrow> sp_call (hl_sampling_prior self) = None \<Longrightarrow>
   pm_prob (hl_model self) (dict_update (pm_parameters (hl_model self)) params) (hl_data self)
     = Inr p \<Longrightarrow>
   HyperparameterLikelihood_log_likelihood self = Inl TypeError"
  by (simp add: HyperparameterLikelihood_log_likelihood_def Let_def)

lemma hyper_log_likelihood_no_parameters:
  "hl_parameters self = None \<Longrightarrow>
   HyperparameterLikelihood_log_likelihood self = Inl AttributeError"
  by (simp add: HyperparameterLikelihood_log_likelihood_def)

text \<open>
  C5 says that \<open>log_likelihood\<close> returns a finite float whenever the population
  model's and the sampling prior's probability evaluations return non-negative finite
  arrays, zeros included. The code on such an instance, whose sampling prior has the
  documented \<open>prob\<close> method: line 138 evaluates \<open>self.sampling_prior(self.data)\<close>, a
  call of the object itself, where the population model beside it is evaluated as
  \<open>self.model.prob(self.data)\<close>; the call raises TypeError and no float is returned.
  On an instance as the class leaves it, with the attribute \<open>parameters\<close> never
  assigned, the method raises AttributeError one line earlier.
\<close>

theorem hyper_log_likelihood_prob_only_prior:
  "sp_prob (hl_sampling_prior prob_only_example) (hl_data prob_only_example)
     = Inr [[Fin 0, Fin 1], [Fin 1, Fin 1]]
   \<and> pm_prob (hl_model prob_only_example) [(''mu'', PNum 1)] (hl_data prob_only_example)
     = Inr [[Fin 0, Fin 0], [Fin 1, Fin 2]]
   \<and> HyperparameterLikelihood_log_likelihood prob_only_example = Inl TypeError
   \<and> HyperparameterLikelihood_log_likelihood (prob_only_example\<lparr>hl_parameters := None\<rparr>)
     = Inl AttributeError"
  by (simp add: prob_only_example_def HyperparameterLikelihood_log_likelihood_def Let_def
      dict_update_def)

subsection \<open>Construction of the hyperparameter likelihood\<close>

lemma resample_two_events_python3:
  "resample_posteriors Py3
     \<lparr>hl_posteriors = two_events, hl_hyper_prior = hp, hl_sampling_prior = sp,
      hl_model = model, hl_max_samples = IntN 300, hl_data = [], hl_n_posteriors = 0,
      hl_samples_per_posterior = 0, hl_log_factor = Fin 0, hl_parameters = None\<rparr> None
   = Inl TypeError"
  by (simp add: resample_posteriors_def two_events_def zero_frame_def py_min_len_def)

lemma resample_two_events_python2:
  "resample_posteriors Py2
     \<lparr>hl_posteriors = two_events, hl_hyper_prior = hp, hl_sampling_prior = sp,
      hl_model = model, hl_max_samples = IntN 300, hl_data = [], hl_n_posteriors = 0,
      hl_samples_per_posterior = 0, hl_log_factor = Fin 0, hl_parameters = None\<rparr> None
   = Inr (\<lparr>hl_posteriors = two_events, hl_hyper_prior = hp, hl_sampling_prior = sp,
           hl_model = model, hl_max_samples = NoneN, hl_data = [], hl_n_posteriors = 0,
           hl_samples_per_posterior = 0, hl_log_factor = Fin 0, hl_parameters = None\<rparr>,
          [(''mu'', [[0], [0]])])"
  by (simp add: resample_posteriors_def two_events_def zero_frame_def py_min_len_def)

text \<open>
  Called with the cap itself, \<open>resample_posteriors(300)\<close> does draw 300 samples from
  each of the two events.
\<close>

lemma resample_two_events_explicit_cap:
  "resample_posteriors ver
     \<lparr>hl_posteriors = two_events, hl_hyper_prior = hp, hl_sampling_prior = sp,
      hl_model = model, hl_max_samples = FloatN (10 ^ 100), hl_data = [],
      hl_n_posteriors = 0, hl_samples_per_posterior = 0, hl_log_factor = Fin 0,
      hl_parameters = None\<rparr> (Some 300)
   = Inr (\<lparr>hl_posteriors = two_events, hl_hyper_prior = hp, hl_sampling_prior = sp,
           hl_model = model, hl_max_samples = IntN 300, hl_data = [], hl_n_posteriors = 0,
           hl_samples_per_posterior = 0, hl_log_factor = Fin 0, hl_parameters = None\<rparr>,
          [(''mu'', [replicate 300 0, replicate 300 0])])"
  by (simp add: resample_posteriors_def two_events_def zero_frame_def py_min_len_def)

text \<open>
  C2 says that two posterior sets of sizes 500 and 300 with \<open>max_samples = 300\<close> give a
  data array of 2 events with 300 samples each, \<open>n_posteriors = 2\<close>,
  \<open>samples_per_posterior = 300\<close> and \<open>log_factor = -2 * log(300)\<close>. The code at this
  input: the constructor raises in its first statement, under either interpreter. The
  statements after it call \<open>resample_posteriors()\<close> without the cap, so that the cap
  compared and the count drawn are None: Python 3 raises TypeError in \<open>min\<close>, and
  Python 2 draws one sample per event, which gives \<open>n_posteriors = 1\<close>,
  \<open>samples_per_posterior = 2\<close> and \<open>log_factor = -log(2)\<close>.
\<close>

theorem hyper_init_two_events:
  "HyperparameterLikelihood_init Py2 two_events hp model sp (IntN 300) = Inl TypeError
   \<and> HyperparameterLikelihood_init Py3 two_events hp model sp (IntN 300) = Inl AttributeError
   \<and> HyperparameterLikelihood_init_body Py3 two_events hp model sp (IntN 300) = Inl TypeError
   \<and> (\<exists>self. HyperparameterLikelihood_init_body Py2 two_events hp model sp (IntN 300) = Inr self
         \<and> hl_data self = [(''mu'', [[0], [0]])]
         \<and> hl_n_posteriors self = 1
         \<and> hl_samples_per_posterior self = 2
         \<and> hl_log_factor self = Fin (- ln 2)
         \<and> hl_max_samples self = NoneN)"
proof -
  have a: "HyperparameterLikelihood_init Py2 two_events hp model sp (IntN 300) = Inl TypeError"
    by (simp add: HyperparameterLikelihood_init_def Likelihood_init_unbound_def)
  have b: "HyperparameterLikelihood_init Py3 two_events hp model sp (IntN 300)
      = Inl AttributeError"
    by (simp add: HyperparameterLikelihood_init_def Likelihood_init_unbound_def)
  have c: "HyperparameterLikelihood_init_body Py3 two_events hp model sp (IntN 300)
      = Inl TypeError"
    by (simp add: HyperparameterLikelihood_init_body_def resample_two_events_python3)
  have d: "\<exists>self. HyperparameterLikelihood_init_body Py2 two_events hp model sp (IntN 300)
         = Inr self
         \<and> hl_data self = [(''mu'', [[0], [0]])]
         \<and> hl_n_posteriors self = 1
         \<and> hl_samples_per_posterior self = 2
         \<and> hl_log_factor self = Fin (- ln 2)
         \<and> hl_max_samples self = NoneN"
    by (simp add: HyperparameterLikelihood_init_body_def resample_two_events_python2
        first_value_def np_shape_def)
  from a b c d show ?thesis by blast
qed

end
